theory Spec2Isabelle
  imports Complex_Main "HOL-Library.Char_ord" "HOL-Library.Sublist" "HOL-Library.Multiset"
    "HOL-Library.Word"
begin

section \<open>Label sanitization (scripts/addEntityTypeLabels.js)\<close>

text \<open>
  A JavaScript string is modelled as a \<^typ>\<open>string\<close>, one \<^typ>\<open>char\<close> per code unit. The
  functions below only tell ASCII letters, digits and the underscore apart from all
  other units. A value that may be absent (\<open>undefined\<close>) is a \<^typ>\<open>string option\<close>.
\<close>

definition is_letter :: "char \<Rightarrow> bool" where
  "is_letter c = ((CHR ''a'' \<le> c \<and> c \<le> CHR ''z'') \<or> (CHR ''A'' \<le> c \<and> c \<le> CHR ''Z''))"

definition is_digit :: "char \<Rightarrow> bool" where
  "is_digit c = (CHR ''0'' \<le> c \<and> c \<le> CHR ''9'')"

text \<open>The character class \<open>[a-zA-Z0-9_]\<close>.\<close>

definition is_label_char :: "char \<Rightarrow> bool" where
  "is_label_char c = (is_letter c \<or> is_digit c \<or> c = CHR ''_'')"

text \<open>
  \<^verbatim>\<open>
  function sanitizeLabel(entityType) {
    if (!entityType) return 'Unknown';
    const sanitized = entityType.replace(/[^a-zA-Z0-9_]/g, '_');
    if (!/^[a-zA-Z]/.test(sanitized)) {
      return 'T_' + sanitized;
    }
    return sanitized;
  }
  \<close>
\<close>

definition truthy :: "string option \<Rightarrow> bool" where
  "truthy v = (case v of None \<Rightarrow> False | Some s \<Rightarrow> s \<noteq> [])"

definition starts_with_letter :: "string \<Rightarrow> bool" where
  "starts_with_letter s = (case s of [] \<Rightarrow> False | c # _ \<Rightarrow> is_letter c)"

definition sanitizeLabel :: "string option \<Rightarrow> string" where
  "sanitizeLabel entityType =
     (if \<not> truthy entityType then ''Unknown''
      else
        let sanitized = map (\<lambda>c. if is_label_char c then c else CHR ''_'') (the entityType)
        in if \<not> starts_with_letter sanitized then ''T_'' @ sanitized else sanitized)"

section \<open>Ontology extraction (src/server/handlers/toolHandlers/getOntology.ts)\<close>

text \<open>
  The graph handed to \<open>extractOntology\<close> carries an array of entities and an array of
  relations. Only the fields the ontology code reads are kept; each may be missing
  from a stored record, in which case it is \<open>None\<close> (JavaScript's \<open>undefined\<close>).
  Strict equality \<open>===\<close> on such values is equality on \<^typ>\<open>string option\<close>.
  For such a graph the guards \<open>graph && graph.entities\<close> and
  \<open>graph && graph.relations\<close> of \<open>extractOntology\<close> hold: an array is truthy.
\<close>

record entity =
  name :: "string option"
  entityType :: "string option"

record relation =
  rel_from :: "string option"
  rel_to :: "string option"
  relationType :: "string option"

record graph =
  entities :: "entity list"
  relations :: "relation list"

text \<open>
  An object used as a dictionary (\<open>Record<string, T>\<close>) is the list of its own
  properties in insertion order: a new key goes to the end, an existing key keeps
  its place. A lookup sees own properties only: the names that every object inherits
  (such as \<open>constructor\<close>) are ordinary keys here. Integer-like keys, which
  \<open>Object.entries\<close> lists before the others, stay in insertion order; every list of
  entries is sorted before it is used.
\<close>

type_synonym 'v dict = "(string \<times> 'v) list"

definition dict_get :: "'v dict \<Rightarrow> string \<Rightarrow> 'v option" where
  "dict_get d k = map_of d k"

fun dict_set :: "'v dict \<Rightarrow> string \<Rightarrow> 'v \<Rightarrow> 'v dict" where
  "dict_set [] k v = [(k, v)]"
| "dict_set ((k', v') # d) k v = (if k' = k then (k, v) # d else (k', v') # dict_set d k v)"

record connection =
  conn_from :: "string option"
  conn_to :: "string option"
  conn_count :: nat

record ontology =
  entityTypes :: "nat dict"
  relationTypes :: "connection list dict"

text \<open>
  The body of the first loop:
  \<^verbatim>\<open>
  if (entity.entityType) {
    entityTypes[entity.entityType] = (entityTypes[entity.entityType] || 0) + 1;
  }
  \<close>
\<close>

definition count_entity :: "nat dict \<Rightarrow> entity \<Rightarrow> nat dict" where
  "count_entity ets e =
     (if truthy (entityType e)
      then let t = the (entityType e)
           in dict_set ets t ((case dict_get ets t of None \<Rightarrow> 0 | Some n \<Rightarrow> n) + 1)
      else ets)"

text \<open>\<open>existingConnection.count++\<close> on the first connection that \<open>find\<close> returns.\<close>

fun bump_first :: "(connection \<Rightarrow> bool) \<Rightarrow> connection list \<Rightarrow> connection list" where
  "bump_first P [] = []"
| "bump_first P (c # cs) =
     (if P c then c\<lparr>conn_count := conn_count c + 1\<rparr> # cs else c # bump_first P cs)"

text \<open>
  The body of the second loop:
  \<^verbatim>\<open>
  if (!relation.relationType) continue;
  const fromEntity = graph.entities.find((e: any) => e.name === relation.from);
  const toEntity = graph.entities.find((e: any) => e.name === relation.to);
  if (!fromEntity || !toEntity) continue;
  const fromType = fromEntity.entityType;
  const toType = toEntity.entityType;
  if (!relationTypes[relation.relationType]) {
    relationTypes[relation.relationType] = [];
  }
  const existingConnection = relationTypes[relation.relationType].find(
    conn => conn.from === fromType && conn.to === toType
  );
  if (existingConnection) {
    existingConnection.count++;
  } else {
    relationTypes[relation.relationType].push({ from: fromType, to: toType, count: 1 });
  }
  \<close>
\<close>

definition add_relation :: "entity list \<Rightarrow> connection list dict \<Rightarrow> relation \<Rightarrow> connection list dict" where
  "add_relation es rts r =
     (if \<not> truthy (relationType r) then rts
      else
        case (find (\<lambda>e. name e = rel_from r) es, find (\<lambda>e. name e = rel_to r) es) of
          (Some fromEntity, Some toEntity) \<Rightarrow>
            let fromType = entityType fromEntity;
                toType = entityType toEntity;
                rt = the (relationType r);
                rts1 = (if dict_get rts rt = None then dict_set rts rt [] else rts);
                conns = (case dict_get rts1 rt of None \<Rightarrow> [] | Some cs \<Rightarrow> cs);
                same = (\<lambda>conn. conn_from conn = fromType \<and> conn_to conn = toType)
            in (case find same conns of
                  Some existingConnection \<Rightarrow> dict_set rts1 rt (bump_first same conns)
                | None \<Rightarrow>
                    dict_set rts1 rt
                      (conns @ [\<lparr>conn_from = fromType, conn_to = toType, conn_count = 1\<rparr>]))
        | _ \<Rightarrow> rts)"

definition extractOntology :: "graph \<Rightarrow> ontology" where
  "extractOntology g =
     \<lparr>entityTypes = foldl count_entity [] (entities g),
      relationTypes = foldl (add_relation (entities g)) [] (relations g)\<rparr>"

section \<open>Ontology formatting\<close>

text \<open>Decimal rendering of a count, as a template literal prints a small integer.\<close>

fun show_nat :: "nat \<Rightarrow> string" where
  "show_nat n =
     (if n < 10 then [''0123456789'' ! n] else show_nat (n div 10) @ [''0123456789'' ! (n mod 10)])"

declare show_nat.simps [simp del]

definition newline :: string where
  "newline = [CHR 0x0A]"

text \<open>The arrow U+2192 of the template, in UTF-8.\<close>

definition arrow :: string where
  "arrow = [CHR 0xE2, CHR 0x86, CHR 0x92]"

text \<open>What a template literal prints for a value that may be \<open>undefined\<close>.\<close>

definition tstr :: "string option \<Rightarrow> string" where
  "tstr v = (case v of None \<Rightarrow> ''undefined'' | Some s \<Rightarrow> s)"

text \<open>
  \<open>Array.prototype.sort\<close> is stable: it is an insertion sort here, which for a
  consistent comparator gives the one stable sorted order. \<open>localeCompare\<close> is the
  host's collation and is a parameter \<open>cmp\<close> of everything that sorts: negative when
  the first argument goes first, zero on a tie.
\<close>

fun insert_sorted :: "('a \<Rightarrow> 'a \<Rightarrow> int) \<Rightarrow> 'a \<Rightarrow> 'a list \<Rightarrow> 'a list" where
  "insert_sorted c x [] = [x]"
| "insert_sorted c x (y # ys) = (if c x y \<le> 0 then x # y # ys else y # insert_sorted c x ys)"

definition js_sort :: "('a \<Rightarrow> 'a \<Rightarrow> int) \<Rightarrow> 'a list \<Rightarrow> 'a list" where
  "js_sort c xs = foldr (insert_sorted c) xs []"

definition entity_line :: "string \<times> nat \<Rightarrow> string" where
  "entity_line = (\<lambda>(type, count).
     ''EntityType: '' @ type @ '' ('' @ show_nat count @ '')'' @ newline)"

definition relation_line :: "string \<Rightarrow> connection \<Rightarrow> string" where
  "relation_line type conn =
     ''RelationType: '' @ type @ '' (EntityType: '' @ tstr (conn_from conn) @ '' '' @ arrow
       @ '' EntityType: '' @ tstr (conn_to conn) @ '') ('' @ show_nat (conn_count conn) @ '')''
       @ newline"

text \<open>
  \<^verbatim>\<open>
  connections.forEach(conn => {
    const key = `${conn.from}\<rightarrow>${conn.to}`;
    if (!groupedConnections[key]) {
      groupedConnections[key] = { ...conn };
    } else {
      groupedConnections[key].count += conn.count;
    }
  });
  \<close>
\<close>

definition group_step :: "connection dict \<Rightarrow> connection \<Rightarrow> connection dict" where
  "group_step grouped conn =
     (let key = tstr (conn_from conn) @ arrow @ tstr (conn_to conn)
      in case dict_get grouped key of
           None \<Rightarrow> dict_set grouped key conn
         | Some g \<Rightarrow> dict_set grouped key (g\<lparr>conn_count := conn_count g + conn_count conn\<rparr>))"

definition groupedConnections :: "connection list \<Rightarrow> connection list" where
  "groupedConnections connections = map snd (foldl group_step [] connections)"

text \<open>
  The comparator \<open>a.from.localeCompare(b.from) || a.to.localeCompare(b.to)\<close>. It
  dereferences \<open>a.from\<close> (and \<open>a.to\<close> on a tie), which raises a \<open>TypeError\<close> when that
  value is \<open>undefined\<close>; an \<open>undefined\<close> argument is compared as the text
  \<open>undefined\<close>. With fewer than two connections the comparator is never called. With
  two or more, which connection is passed first is left to the engine's sort, so the
  model is conservative: it reports the \<open>TypeError\<close> whenever some connection of the
  group lacks an endpoint type.
\<close>

datatype error = TypeError

definition conn_compare :: "(string \<Rightarrow> string \<Rightarrow> int) \<Rightarrow> connection \<Rightarrow> connection \<Rightarrow> int" where
  "conn_compare cmp a b =
     (let c = cmp (tstr (conn_from a)) (tstr (conn_from b))
      in if c \<noteq> 0 then c else cmp (tstr (conn_to a)) (tstr (conn_to b)))"

definition typed_conn :: "connection \<Rightarrow> bool" where
  "typed_conn c = (conn_from c \<noteq> None \<and> conn_to c \<noteq> None)"

definition relation_lines ::
  "(string \<Rightarrow> string \<Rightarrow> int) \<Rightarrow> string \<times> connection list \<Rightarrow> error + string" where
  "relation_lines cmp = (\<lambda>(type, connections).
     let grouped = groupedConnections connections
     in if 2 \<le> length grouped \<and> \<not> list_all typed_conn grouped then Inl TypeError
        else Inr (concat (map (relation_line type) (js_sort (conn_compare cmp) grouped))))"

fun relation_block ::
  "(string \<Rightarrow> string \<Rightarrow> int) \<Rightarrow> (string \<times> connection list) list \<Rightarrow> error + string" where
  "relation_block cmp [] = Inr []"
| "relation_block cmp (e # es) =
     (case relation_lines cmp e of
        Inl err \<Rightarrow> Inl err
      | Inr ls \<Rightarrow> (case relation_block cmp es of Inl err \<Rightarrow> Inl err | Inr rest \<Rightarrow> Inr (ls @ rest)))"

definition by_key :: "(string \<Rightarrow> string \<Rightarrow> int) \<Rightarrow> string \<times> 'v \<Rightarrow> string \<times> 'v \<Rightarrow> int" where
  "by_key cmp a b = cmp (fst a) (fst b)"

definition formatOntology :: "(string \<Rightarrow> string \<Rightarrow> int) \<Rightarrow> ontology \<Rightarrow> error + string" where
  "formatOntology cmp ont =
     (let entityTypeEntries = entityTypes ont;
          relationTypeEntries = relationTypes ont
      in if entityTypeEntries = [] \<and> relationTypeEntries = []
         then Inr ''No entities or relations found in the knowledge graph.''
         else
           let output =
                 (if entityTypeEntries \<noteq> []
                  then concat (map entity_line (js_sort (by_key cmp) entityTypeEntries)) @ newline
                  else ''No entity types found in the knowledge graph.'' @ newline @ newline)
           in if relationTypeEntries \<noteq> []
              then (case relation_block cmp (js_sort (by_key cmp) relationTypeEntries) of
                      Inl err \<Rightarrow> Inl err
                    | Inr ls \<Rightarrow> Inr (output @ ls))
              else Inr (output @ ''No relation types found in the knowledge graph.''))"

text \<open>
  \<open>handleGetOntology\<close>: extract, then format. The graph comes from \<open>handleReadGraph\<close>
  as JSON text and is parsed back, which leaves the fields read here as they were.
\<close>

definition handleGetOntology :: "(string \<Rightarrow> string \<Rightarrow> int) \<Rightarrow> graph \<Rightarrow> error + string" where
  "handleGetOntology cmp g = formatOntology cmp (extractOntology g)"


section \<open>Vocabulary for the properties of the extraction\<close>








section \<open>Vocabulary for the properties of the formatting\<close>

text \<open>
  What is assumed of \<open>localeCompare\<close> wherever an order is claimed: the sign flips when
  the arguments are swapped, and ``not after'' is transitive.
\<close>

definition consistent :: "('a \<Rightarrow> 'a \<Rightarrow> int) \<Rightarrow> bool" where
  "consistent c = ((\<forall>a b. (c a b < 0) = (0 < c b a)) \<and>
     (\<forall>a b d. c a b \<le> 0 \<longrightarrow> c b d \<le> 0 \<longrightarrow> c a d \<le> 0))"


text \<open>
  The declared parameter type of \<open>formatOntology\<close> gives every connection a \<open>from\<close> and
  a \<open>to\<close> string.
\<close>

definition typed_ontology :: "ontology \<Rightarrow> bool" where
  "typed_ontology ont = list_all (\<lambda>(type, connections). list_all typed_conn connections) (relationTypes ont)"


text \<open>The graph of the handler's test (\<open>__vitest__/getOntology.test.ts\<close>).\<close>

definition mockGraph :: graph where
  "mockGraph =
     \<lparr>entities =
        [\<lparr>name = Some ''Person1'', entityType = Some ''Person''\<rparr>,
         \<lparr>name = Some ''Person2'', entityType = Some ''Person''\<rparr>,
         \<lparr>name = Some ''Team1'', entityType = Some ''Team''\<rparr>,
         \<lparr>name = Some ''Project1'', entityType = Some ''Project''\<rparr>],
      relations =
        [\<lparr>rel_from = Some ''Person1'', rel_to = Some ''Team1'', relationType = Some ''isMemberOf''\<rparr>,
         \<lparr>rel_from = Some ''Person2'', rel_to = Some ''Team1'', relationType = Some ''isMemberOf''\<rparr>,
         \<lparr>rel_from = Some ''Project1'', rel_to = Some ''Team1'', relationType = Some ''createdBy''\<rparr>]\<rparr>"

section \<open>The inline \<open>get_ontology\<close> branch of handleToolCall (src/types/relation.ts)\<close>







section \<open>Vocabulary for graphs with malformed records\<close>






text \<open>A graph in which an entity without \<open>entityType\<close> is the source of two relations.\<close>

definition untyped_source_graph :: graph where
  "untyped_source_graph =
     \<lparr>entities =
        [\<lparr>name = Some ''Orphan'', entityType = None\<rparr>,
         \<lparr>name = Some ''Ada'', entityType = Some ''Person''\<rparr>,
         \<lparr>name = Some ''Core'', entityType = Some ''Team''\<rparr>],
      relations =
        [\<lparr>rel_from = Some ''Orphan'', rel_to = Some ''Ada'', relationType = Some ''knows''\<rparr>,
         \<lparr>rel_from = Some ''Orphan'', rel_to = Some ''Core'', relationType = Some ''knows''\<rparr>]\<rparr>"

section \<open>Conversion of driver integers (readGraph.ts and getOntology.ts)\<close>

text \<open>
  The values that \<open>readGraph\<close> returns are JSON-like: leaves, arrays, and plain objects
  (the list of their own enumerable properties in order), with the driver's 64-bit
  \<open>Integer\<close> as one more kind of leaf, the one \<open>neo4j.isInt\<close> recognises. The driver's
  \<open>toNumber\<close> is a parameter.
  \<^verbatim>\<open>
  function convertNeo4jIntegers(obj: any): any {
    if (neo4j.isInt(obj)) {
      return obj.toNumber();
    } else if (Array.isArray(obj)) {
      return obj.map(convertNeo4jIntegers);
    } else if (obj && typeof obj === 'object') {
      return Object.fromEntries(
        Object.entries(obj).map(([k, v]) => [k, convertNeo4jIntegers(v)])
      );
    }
    return obj;
  }
  \<close>
  Both files hold the same text of the function.
\<close>

datatype jsvalue =
    JUndefined
  | JNull
  | JBool bool
  | JNumber real
  | JString string
  | Neo4jInteger "64 word"
  | JArray "jsvalue list"
  | JObject "(string \<times> jsvalue) list"

primrec convertNeo4jIntegers :: "(64 word \<Rightarrow> real) \<Rightarrow> jsvalue \<Rightarrow> jsvalue" where
  "convertNeo4jIntegers toNumber (Neo4jInteger i) = JNumber (toNumber i)"
| "convertNeo4jIntegers toNumber (JArray xs) = JArray (map (convertNeo4jIntegers toNumber) xs)"
| "convertNeo4jIntegers toNumber (JObject kvs) =
     JObject (map (map_prod id (convertNeo4jIntegers toNumber)) kvs)"
| "convertNeo4jIntegers toNumber JUndefined = JUndefined"
| "convertNeo4jIntegers toNumber JNull = JNull"
| "convertNeo4jIntegers toNumber (JBool b) = JBool b"
| "convertNeo4jIntegers toNumber (JNumber n) = JNumber n"
| "convertNeo4jIntegers toNumber (JString s) = JString s"

definition is_leaf :: "jsvalue \<Rightarrow> bool" where
  "is_leaf v = (case v of JArray xs \<Rightarrow> False | JObject kvs \<Rightarrow> False | _ \<Rightarrow> True)"

definition is_neo4j_integer :: "jsvalue \<Rightarrow> bool" where
  "is_neo4j_integer v = (case v of Neo4jInteger i \<Rightarrow> True | _ \<Rightarrow> False)"

definition sample_value :: jsvalue where
  "sample_value =
     JObject [(''entities'', JArray [JObject [(''name'', JString ''Ada''), (''version'', Neo4jInteger 3)]]),
              (''total'', Neo4jInteger 1)]"

section \<open>Decay function\<close>


section \<open>Embedding backfill (scripts/update_missing_embeddings.mjs)\<close>

text \<open>
  The script reads every field of a stored entity as it comes, so the fields are
  JSON-like values. \<open>JSON.parse\<close> (\<open>None\<close> when it throws) and the text of a number,
  array or object in a template literal are parameters; the text of a string, of
  \<open>undefined\<close>, \<open>null\<close> and the booleans is fixed.
\<close>

record stored_entity =
  se_name :: jsvalue
  se_entityType :: jsvalue
  se_observations :: jsvalue
  se_metadata :: jsvalue
  se_embedding :: jsvalue


definition js_text :: "(jsvalue \<Rightarrow> string) \<Rightarrow> jsvalue \<Rightarrow> string" where
  "js_text other v =
     (case v of
        JString s \<Rightarrow> s
      | JUndefined \<Rightarrow> ''undefined''
      | JNull \<Rightarrow> ''null''
      | JBool b \<Rightarrow> (if b then ''true'' else ''false'')
      | _ \<Rightarrow> other v)"

text \<open>\<open>lines.join('\n')\<close> for a separator \<open>sep\<close>.\<close>

fun join :: "string \<Rightarrow> string list \<Rightarrow> string" where
  "join sep [] = []"
| "join sep [x] = x"
| "join sep (x # y # ys) = x @ sep @ join sep (y # ys)"

text \<open>
  The value of \<open>observationsArray\<close> after the two normalising steps:
  \<^verbatim>\<open>
  let observationsArray = entity.observations;
  if (typeof observationsArray === 'string') {
    try {
      observationsArray = JSON.parse(observationsArray);
    } catch {
      observationsArray = [observationsArray];
    }
  }
  if (!Array.isArray(observationsArray)) {
    observationsArray = [String(observationsArray)];
  }
  \<close>
\<close>

definition observationsArray ::
  "(string \<Rightarrow> jsvalue option) \<Rightarrow> (jsvalue \<Rightarrow> string) \<Rightarrow> stored_entity \<Rightarrow> jsvalue list" where
  "observationsArray parse other entity =
     (let parsed =
            (case se_observations entity of
               JString s \<Rightarrow> (case parse s of Some v \<Rightarrow> v | None \<Rightarrow> JArray [JString s])
             | v \<Rightarrow> v)
      in case parsed of
           JArray xs \<Rightarrow> xs
         | v \<Rightarrow> [JString (js_text other v)])"

text \<open>
  The text handed to the embedding service:
  \<^verbatim>\<open>
  const lines = [
    `Name: ${entity.name}`,
    `Type: ${entity.entityType}`,
    'Observations:'
  ];
  ...
  if (observationsArray.length > 0) {
    lines.push(...observationsArray.map(obs => `- ${obs}`));
  } else {
    lines.push('  (No observations)');
  }
  const text = lines.join('\n');
  \<close>
\<close>

definition embedding_text ::
  "(string \<Rightarrow> jsvalue option) \<Rightarrow> (jsvalue \<Rightarrow> string) \<Rightarrow> stored_entity \<Rightarrow> string" where
  "embedding_text parse other entity =
     (let lines =
            [''Name: '' @ js_text other (se_name entity),
             ''Type: '' @ js_text other (se_entityType entity),
             ''Observations:''];
          observations = observationsArray parse other entity
      in join newline
           (lines @
            (if observations \<noteq> [] then map (\<lambda>obs. ''- '' @ js_text other obs) observations
             else [''  (No observations)''])))"






text \<open>Two stored entities without an embedding, and services whose embedding call fails for the first.\<close>

definition project_alpha :: stored_entity where
  "project_alpha =
     \<lparr>se_name = JString ''Project Alpha'', se_entityType = JString ''Project'',
      se_observations = JArray [JString ''Started in January 2023''],
      se_metadata = JObject [(''status'', JString ''active'')],
      se_embedding = JUndefined\<rparr>"




section \<open>Properties of label sanitization\<close>

lemma is_label_char_replace: "is_label_char (if is_label_char c then c else CHR ''_'')"
  by (simp add: is_label_char_def)

lemma sanitized_all_label_chars:
  "list_all is_label_char (map (\<lambda>c. if is_label_char c then c else CHR ''_'') s)"
  by (induction s) (simp_all add: is_label_char_def)

lemma letter_is_label_char: "is_letter c \<Longrightarrow> is_label_char c"
  by (simp add: is_label_char_def)

lemma letter_kept: "is_letter c \<Longrightarrow> (if is_label_char c then c else CHR ''_'') = c"
  by (simp add: is_label_char_def)

lemma underscore_not_letter: "\<not> is_letter (CHR ''_'')"
  by (simp add: is_letter_def less_eq_char_def)

text \<open>
  C8. For every input (a string, or an absent value), \<open>sanitizeLabel\<close> returns a string
  that starts with a letter and whose remaining characters are all letters, digits or
  underscores; and a non-empty input whose first character is not a letter is not
  rejected but mapped to \<open>'T_'\<close> followed by the input with every character outside
  \<open>[a-zA-Z0-9_]\<close> replaced by an underscore.
\<close>

theorem sanitizeLabel_contract:
  "(\<exists>c cs. sanitizeLabel v = c # cs \<and> is_letter c \<and> list_all is_label_char cs) \<and>
   (\<forall>c s. v = Some (c # s) \<longrightarrow> \<not> is_letter c \<longrightarrow>
      sanitizeLabel v = ''T_'' @ map (\<lambda>c. if is_label_char c then c else CHR ''_'') (c # s))"
proof (intro conjI allI impI)
  show "\<exists>c cs. sanitizeLabel v = c # cs \<and> is_letter c \<and> list_all is_label_char cs"
  proof (cases "truthy v")
    case False
    then have "sanitizeLabel v = ''Unknown''"
      by (simp add: sanitizeLabel_def)
    then show ?thesis
      by (simp add: is_letter_def is_label_char_def is_digit_def less_eq_char_def)
  next
    case True
    then obtain c s where v: "v = Some (c # s)"
      by (cases v; cases "the v") (auto simp: truthy_def)
    let ?r = "\<lambda>c. if is_label_char c then c else CHR ''_''"
    have rest: "list_all is_label_char (map ?r s)"
      by (rule sanitized_all_label_chars)
    show ?thesis
    proof (cases "is_letter c")
      case True
      then have "sanitizeLabel v = c # map ?r s"
        using v by (simp add: sanitizeLabel_def truthy_def starts_with_letter_def letter_kept)
      with True rest show ?thesis by simp
    next
      case False
      then have "\<not> is_letter (?r c)"
        by (simp add: underscore_not_letter)
      then have "sanitizeLabel v = CHR ''T'' # CHR ''_'' # ?r c # map ?r s"
        using v by (simp add: sanitizeLabel_def truthy_def starts_with_letter_def)
      moreover have "is_letter (CHR ''T'')"
        by (simp add: is_letter_def less_eq_char_def)
      moreover have "is_label_char (CHR ''_'')" "is_label_char (?r c)"
        by (simp_all add: is_label_char_def)
      ultimately show ?thesis using rest by simp
    qed
  qed
next
  fix c s
  assume v: "v = Some (c # s)" and nl: "\<not> is_letter c"
  then have "\<not> is_letter (if is_label_char c then c else CHR ''_'')"
    by (simp add: underscore_not_letter)
  then show "sanitizeLabel v = ''T_'' @ map (\<lambda>c. if is_label_char c then c else CHR ''_'') (c # s)"
    using v by (simp add: sanitizeLabel_def truthy_def starts_with_letter_def)
qed

theorem sanitizeLabel_contract_witness:
  "sanitizeLabel (Some ''9 lives!'') = ''T_9_lives_'' \<and> \<not> is_letter (CHR ''9'') \<and>
   sanitizeLabel (Some ''my-type'') = ''my_type'' \<and> sanitizeLabel None = ''Unknown''"
  using sanitizeLabel_contract [of "Some ''9 lives!''"]
  by (simp add: sanitizeLabel_def truthy_def starts_with_letter_def is_label_char_def
      is_letter_def is_digit_def less_eq_char_def)

section \<open>Properties of the relation pass of extractOntology\<close>




lemma dict_get_None_iff: "dict_get d k = None \<longleftrightarrow> k \<notin> fst ` set d"
  by (simp add: dict_get_def map_of_eq_None_iff)





lemma find_None_filter: "find P cs = None \<Longrightarrow> filter P cs = []"
  by (induction cs) (auto split: if_splits)



lemma set_dict_set: "set (dict_set d k v) \<subseteq> insert (k, v) (set d)"
  by (induction d) (auto split: if_splits)

lemma dict_get_SomeD: "dict_get d k = Some v \<Longrightarrow> (k, v) \<in> set d"
  by (simp add: dict_get_def map_of_SomeD)








section \<open>Properties of formatOntology\<close>



lemma mset_insert_sorted: "mset (insert_sorted c x xs) = add_mset x (mset xs)"
  by (induction xs) auto

lemma mset_js_sort: "mset (js_sort c xs) = mset xs"
  by (induction xs) (simp_all add: js_sort_def mset_insert_sorted)

lemma set_js_sort: "set (js_sort c xs) = set xs"
  using mset_js_sort [of c xs] by (metis set_mset_mset)





lemma consistent_zero_sym: "consistent c \<Longrightarrow> c a b = 0 \<Longrightarrow> c b a = 0"
  unfolding consistent_def by (metis less_irrefl linorder_neqE_linordered_idom)



lemma typed_group_step:
  assumes "\<forall>(k, v) \<in> set d. typed_conn v" and "typed_conn c"
  shows "\<forall>(k, v) \<in> set (group_step d c). typed_conn v"
proof -
  let ?key = "tstr (conn_from c) @ arrow @ tstr (conn_to c)"
  show ?thesis
  proof (cases "dict_get d ?key")
    case None
    then have "group_step d c = dict_set d ?key c"
      by (simp add: group_step_def)
    then show ?thesis
      using assms set_dict_set [of d ?key c] by auto
  next
    case (Some g)
    then have "(?key, g) \<in> set d" by (rule dict_get_SomeD)
    with assms(1) have "typed_conn (g\<lparr>conn_count := conn_count g + conn_count c\<rparr>)"
      by (auto simp: typed_conn_def)
    moreover from Some have "group_step d c = dict_set d ?key (g\<lparr>conn_count := conn_count g + conn_count c\<rparr>)"
      by (simp add: group_step_def)
    ultimately show ?thesis
      using assms(1) set_dict_set [of d ?key "g\<lparr>conn_count := conn_count g + conn_count c\<rparr>"]
      by auto
  qed
qed

lemma typed_group_foldl:
  "\<forall>(k, v) \<in> set d. typed_conn v \<Longrightarrow> list_all typed_conn cs \<Longrightarrow>
   \<forall>(k, v) \<in> set (foldl group_step d cs). typed_conn v"
proof (induction cs arbitrary: d)
  case Nil
  then show ?case by simp
next
  case (Cons c cs)
  from Cons.prems have "\<forall>(k, v) \<in> set (group_step d c). typed_conn v"
    by (intro typed_group_step) simp_all
  with Cons show ?case by simp
qed

lemma typed_groupedConnections:
  "list_all typed_conn cs \<Longrightarrow> list_all typed_conn (groupedConnections cs)"
  using typed_group_foldl [of "[]" cs]
  by (auto simp: groupedConnections_def list_all_iff)

lemma relation_lines_typed:
  "list_all typed_conn connections \<Longrightarrow>
   relation_lines cmp (type, connections) =
     Inr (concat (map (relation_line type) (js_sort (conn_compare cmp) (groupedConnections connections))))"
  by (simp add: relation_lines_def typed_groupedConnections)

lemma relation_block_typed:
  "list_all (\<lambda>(type, connections). list_all typed_conn connections) rs \<Longrightarrow>
   relation_block cmp rs =
     Inr (concat (map (\<lambda>(type, connections).
        concat (map (relation_line type) (js_sort (conn_compare cmp) (groupedConnections connections)))) rs))"
  by (induction rs) (auto simp: relation_lines_typed)






section \<open>The ontology of the test graph\<close>

lemma formatOntology_typed:
  assumes "typed_ontology ont"
  shows "formatOntology cmp ont = Inr
       (if entityTypes ont = [] \<and> relationTypes ont = []
        then ''No entities or relations found in the knowledge graph.''
        else (if entityTypes ont = []
              then ''No entity types found in the knowledge graph.'' @ newline @ newline
              else concat (map entity_line (js_sort (by_key cmp) (entityTypes ont))) @ newline)
           @ (if relationTypes ont = [] then ''No relation types found in the knowledge graph.''
              else concat (map (\<lambda>(type, connections). concat (map (relation_line type)
                     (js_sort (conn_compare cmp) (groupedConnections connections))))
                     (js_sort (by_key cmp) (relationTypes ont)))))"
proof -
  have "list_all (\<lambda>(type, connections). list_all typed_conn connections)
          (js_sort (by_key cmp) (relationTypes ont))"
    using assms by (simp add: typed_ontology_def list_all_iff set_js_sort)
  then show ?thesis
    by (simp add: formatOntology_def Let_def relation_block_typed)
qed

lemma sublist_concat_map: "x \<in> set xs \<Longrightarrow> sublist (f x) (concat (map f xs))"
proof -
  assume "x \<in> set xs"
  then obtain as bs where "xs = as @ x # bs"
    by (auto simp: in_set_conv_decomp)
  then show ?thesis by simp
qed

lemma sublist_in_front: "sublist s a \<Longrightarrow> sublist s (a @ b)"
  by (simp add: sublist_append)

lemma sublist_in_back: "sublist s b \<Longrightarrow> sublist s (a @ b)"
  by (simp add: sublist_append)

lemma sublist_of_line:
  assumes "x \<in> set xs" and "sublist s (f x)"
  shows "sublist s (concat (map f xs))"
  using assms sublist_concat_map [of x xs f] by (meson sublist_order.order_trans)

lemma mockGraph_extract:
  "extractOntology mockGraph =
     \<lparr>entityTypes = [(''Person'', 2), (''Team'', 1), (''Project'', 1)],
      relationTypes =
        [(''isMemberOf'', [\<lparr>conn_from = Some ''Person'', conn_to = Some ''Team'', conn_count = 2\<rparr>]),
         (''createdBy'', [\<lparr>conn_from = Some ''Project'', conn_to = Some ''Team'', conn_count = 1\<rparr>])]\<rparr>"
  by (simp add: mockGraph_def extractOntology_def count_entity_def add_relation_def truthy_def
      dict_get_def)

text \<open>
  C3. For the graph with entities Person1:Person, Person2:Person, Team1:Team,
  Project1:Project and relations Person1 to Team1 (isMemberOf), Person2 to Team1
  (isMemberOf), Project1 to Team1 (createdBy), \<open>extractOntology\<close> returns the entity types
  Person: 2, Team: 1, Project: 1, and, whatever the collation, the formatted text contains
  the three entity-type lines and the two relation-type lines of the claim.
\<close>

theorem mockGraph_ontology:
  "entityTypes (extractOntology mockGraph) = [(''Person'', 2), (''Team'', 1), (''Project'', 1)] \<and>
   (\<exists>out. handleGetOntology cmp mockGraph = Inr out \<and>
      sublist ''EntityType: Person (2)'' out \<and>
      sublist ''EntityType: Team (1)'' out \<and>
      sublist ''EntityType: Project (1)'' out \<and>
      sublist (''RelationType: isMemberOf (EntityType: Person '' @ arrow @ '' EntityType: Team) (2)'') out \<and>
      sublist (''RelationType: createdBy (EntityType: Project '' @ arrow @ '' EntityType: Team) (1)'') out)"
proof -
  let ?ont = "extractOntology mockGraph"
  let ?E = "concat (map entity_line (js_sort (by_key cmp) (entityTypes ?ont)))"
  let ?g = "\<lambda>(type, connections). concat (map (relation_line type)
                     (js_sort (conn_compare cmp) (groupedConnections connections)))"
  let ?R = "concat (map ?g (js_sort (by_key cmp) (relationTypes ?ont)))"
  have typed: "typed_ontology ?ont"
    by (simp add: mockGraph_extract typed_ontology_def typed_conn_def)
  have out: "handleGetOntology cmp mockGraph = Inr (?E @ newline @ ?R)"
    unfolding handleGetOntology_def formatOntology_typed [OF typed]
    by (simp add: mockGraph_extract)
  have e: "sublist s ?E" if "x \<in> set (entityTypes ?ont)" and "sublist s (entity_line x)" for s x
    by (rule sublist_of_line [of x]) (simp_all add: that set_js_sort)
  have r: "sublist s ?R" if "x \<in> set (relationTypes ?ont)" and "sublist s (?g x)" for s x
    by (rule sublist_of_line [of x]) (simp_all add: that set_js_sort)
  have inE: "sublist s (?E @ newline @ ?R)" if "sublist s ?E" for s
    using that by (rule sublist_in_front)
  have inR: "sublist s (?E @ newline @ ?R)" if "sublist s ?R" for s
    by (rule sublist_in_back, rule sublist_in_back, rule that)
  have l1: "entity_line (''Person'', 2) = ''EntityType: Person (2)'' @ newline"
    and l2: "entity_line (''Team'', 1) = ''EntityType: Team (1)'' @ newline"
    and l3: "entity_line (''Project'', 1) = ''EntityType: Project (1)'' @ newline"
    by (simp_all add: entity_line_def show_nat.simps)
  have g1: "?g (''isMemberOf'', [\<lparr>conn_from = Some ''Person'', conn_to = Some ''Team'', conn_count = 2\<rparr>])
      = (''RelationType: isMemberOf (EntityType: Person '' @ arrow @ '' EntityType: Team) (2)'') @ newline"
    by (simp add: groupedConnections_def group_step_def dict_get_def js_sort_def relation_line_def
        tstr_def show_nat.simps)
  have g2: "?g (''createdBy'', [\<lparr>conn_from = Some ''Project'', conn_to = Some ''Team'', conn_count = 1\<rparr>])
      = (''RelationType: createdBy (EntityType: Project '' @ arrow @ '' EntityType: Team) (1)'') @ newline"
    by (simp add: groupedConnections_def group_step_def dict_get_def js_sort_def relation_line_def
        tstr_def show_nat.simps)
  have "sublist ''EntityType: Person (2)'' (?E @ newline @ ?R)"
    by (rule inE, rule e [of "(''Person'', 2)"], simp add: mockGraph_extract, unfold l1, rule sublist_append_rightI)
  moreover have "sublist ''EntityType: Team (1)'' (?E @ newline @ ?R)"
    by (rule inE, rule e [of "(''Team'', 1)"], simp add: mockGraph_extract, unfold l2, rule sublist_append_rightI)
  moreover have "sublist ''EntityType: Project (1)'' (?E @ newline @ ?R)"
    by (rule inE, rule e [of "(''Project'', 1)"], simp add: mockGraph_extract, unfold l3, rule sublist_append_rightI)
  moreover have "sublist (''RelationType: isMemberOf (EntityType: Person '' @ arrow @ '' EntityType: Team) (2)'') (?E @ newline @ ?R)"
    by (rule inR, rule r [of "(''isMemberOf'', [\<lparr>conn_from = Some ''Person'', conn_to = Some ''Team'', conn_count = 2\<rparr>])"], simp add: mockGraph_extract, unfold g1, rule sublist_append_rightI)
  moreover have "sublist (''RelationType: createdBy (EntityType: Project '' @ arrow @ '' EntityType: Team) (1)'') (?E @ newline @ ?R)"
    by (rule inR, rule r [of "(''createdBy'', [\<lparr>conn_from = Some ''Project'', conn_to = Some ''Team'', conn_count = 1\<rparr>])"], simp add: mockGraph_extract, unfold g2, rule sublist_append_rightI)
  ultimately show ?thesis
    using out by (simp add: mockGraph_extract)
qed

section \<open>The inline branch agrees with extractOntology and formatOntology\<close>













section \<open>Malformed records in the ontology computation\<close>















text \<open>
  Outside the hypothesis of the theorem: with two connections whose \<open>from\<close> is
  \<open>undefined\<close>, the comparator of the inner sort dereferences \<open>undefined\<close> whichever
  connection it is given first, and formatting raises.
\<close>

lemma untyped_source_raises: "handleGetOntology cmp untyped_source_graph = Inl TypeError"
  by (simp add: untyped_source_graph_def handleGetOntology_def extractOntology_def
      count_entity_def add_relation_def truthy_def dict_get_def formatOntology_def js_sort_def
      by_key_def relation_lines_def groupedConnections_def group_step_def tstr_def arrow_def
      typed_conn_def)

section \<open>Properties of convertNeo4jIntegers\<close>

lemma convert_idem:
  "convertNeo4jIntegers tn (convertNeo4jIntegers tn v) = convertNeo4jIntegers tn v"
  by (induction v) (auto intro: map_idI simp: map_prod_def split: prod.splits)

lemma convert_leaf: "is_leaf v \<Longrightarrow> \<not> is_neo4j_integer v \<Longrightarrow> convertNeo4jIntegers tn v = v"
  by (cases v) (simp_all add: is_leaf_def is_neo4j_integer_def)

text \<open>
  C10. \<open>convertNeo4jIntegers\<close> is idempotent; it maps an array to an array of the same
  length, element by element, and an object to an object with the same keys in the same
  order, value by value; and it returns unchanged every leaf that is not a driver
  integer.
\<close>

theorem convertNeo4jIntegers_idempotent:
  "convertNeo4jIntegers tn (convertNeo4jIntegers tn v) = convertNeo4jIntegers tn v \<and>
   (\<exists>ys. convertNeo4jIntegers tn (JArray xs) = JArray ys \<and> length ys = length xs \<and>
      list_all2 (\<lambda>x y. y = convertNeo4jIntegers tn x) xs ys) \<and>
   (\<exists>kvs'. convertNeo4jIntegers tn (JObject kvs) = JObject kvs' \<and> map fst kvs' = map fst kvs \<and>
      list_all2 (\<lambda>x y. snd y = convertNeo4jIntegers tn (snd x)) kvs kvs') \<and>
   (is_leaf v \<and> \<not> is_neo4j_integer v \<longrightarrow> convertNeo4jIntegers tn v = v)"
proof (intro conjI impI)
  show "convertNeo4jIntegers tn (convertNeo4jIntegers tn v) = convertNeo4jIntegers tn v"
    by (rule convert_idem)
next
  show "\<exists>ys. convertNeo4jIntegers tn (JArray xs) = JArray ys \<and> length ys = length xs \<and>
      list_all2 (\<lambda>x y. y = convertNeo4jIntegers tn x) xs ys"
    by (simp add: list_all2_conv_all_nth)
next
  show "\<exists>kvs'. convertNeo4jIntegers tn (JObject kvs) = JObject kvs' \<and> map fst kvs' = map fst kvs \<and>
      list_all2 (\<lambda>x y. snd y = convertNeo4jIntegers tn (snd x)) kvs kvs'"
    by (simp add: list_all2_conv_all_nth comp_def)
next
  assume "is_leaf v \<and> \<not> is_neo4j_integer v"
  then show "convertNeo4jIntegers tn v = v"
    by (simp add: convert_leaf)
qed

theorem convertNeo4jIntegers_idempotent_witness:
  "is_leaf (JString ''Ada'') \<and> \<not> is_neo4j_integer (JString ''Ada'') \<and>
   convertNeo4jIntegers (\<lambda>i. real_of_int (sint i)) (JString ''Ada'') = JString ''Ada'' \<and>
   convertNeo4jIntegers (\<lambda>i. real_of_int (sint i)) sample_value =
     JObject [(''entities'', JArray [JObject [(''name'', JString ''Ada''), (''version'', JNumber 3)]]),
              (''total'', JNumber 1)] \<and>
   convertNeo4jIntegers (\<lambda>i. real_of_int (sint i))
     (convertNeo4jIntegers (\<lambda>i. real_of_int (sint i)) sample_value) =
     convertNeo4jIntegers (\<lambda>i. real_of_int (sint i)) sample_value"
  using convertNeo4jIntegers_idempotent [of "\<lambda>i. real_of_int (sint i)" "JString ''Ada''" "[]" "[]"]
    convertNeo4jIntegers_idempotent [of "\<lambda>i. real_of_int (sint i)" sample_value "[]" "[]"]
  by (simp add: is_leaf_def is_neo4j_integer_def sample_value_def)

section \<open>Properties of the decay law\<close>






section \<open>Properties of the embedding backfill\<close>

lemma observationsArray_cases:
  "se_observations e = JArray xs \<Longrightarrow> observationsArray parse other e = xs"
  "se_observations e = JString s \<Longrightarrow> parse s = Some (JArray xs) \<Longrightarrow> observationsArray parse other e = xs"
  "se_observations e = JString s \<Longrightarrow> parse s = None \<Longrightarrow> observationsArray parse other e = [JString s]"
  by (simp_all add: observationsArray_def)

lemma embedding_text_empty_marker:
  "observationsArray parse other e = [] \<Longrightarrow>
   embedding_text parse other e =
     ''Name: '' @ js_text other (se_name e) @ newline @ ''Type: '' @ js_text other (se_entityType e)
       @ newline @ ''Observations:'' @ newline @ ''  (No observations)''"
  by (simp add: embedding_text_def)

lemma project_alpha_text:
  "embedding_text parse other project_alpha =
     ''Name: Project Alpha'' @ newline @ ''Type: Project'' @ newline @ ''Observations:'' @ newline
       @ ''- Started in January 2023''"
  by (simp add: embedding_text_def observationsArray_def project_alpha_def js_text_def)


text \<open>
  C6 at the failing input. The text that the backfill builds for an entity with metadata
  \<open>{status: 'active'}\<close> is name, type and observations only; the word \<open>active\<close> is
  not in it, and for every entity the text is the same whatever the metadata.
\<close>

theorem embedding_text_without_metadata:
  "embedding_text parse other project_alpha =
     ''Name: Project Alpha'' @ newline @ ''Type: Project'' @ newline @ ''Observations:'' @ newline
       @ ''- Started in January 2023'' \<and>
   \<not> sublist ''active'' (embedding_text parse other project_alpha) \<and>
   embedding_text parse other (entity\<lparr>se_metadata := m\<rparr>) = embedding_text parse other entity"
proof -
  have "\<not> sublist ''active'' (embedding_text parse other project_alpha)"
    unfolding project_alpha_text by (simp add: newline_def sublist_Cons_right)
  moreover have "embedding_text parse other (entity\<lparr>se_metadata := m\<rparr>) = embedding_text parse other entity"
    by (simp add: embedding_text_def observationsArray_def)
  ultimately show ?thesis using project_alpha_text by simp
qed










end
